theory Spec2Isabelle
  imports Main "HOL-Library.Char_ord" "HOL-Library.List_Lexorder"
begin

section \<open>Exceptions and results\<close>

text \<open>
  The Python exceptions that the modelled code can meet. \<open>FileNotFoundError\<close>,
  \<open>PermissionError\<close> and \<open>IsADirectoryError\<close> are subclasses of \<open>OSError\<close>
  (of which \<open>IOError\<close> is an alias); \<open>UnicodeDecodeError\<close> and
  \<open>JSONDecodeError\<close> are subclasses of \<open>ValueError\<close>. All of them are subclasses
  of \<open>Exception\<close>, so \<open>except Exception\<close> catches every value of this type.
\<close>

datatype exn =
    CalledProcessError
  | OSError
  | FileNotFoundError
  | PermissionError
  | IsADirectoryError
  | ValueError
  | UnicodeDecodeError
  | JSONDecodeError
  | AttributeError
  | TypeError

fun is_OSError :: "exn \<Rightarrow> bool" where
  "is_OSError OSError = True"
| "is_OSError FileNotFoundError = True"
| "is_OSError PermissionError = True"
| "is_OSError IsADirectoryError = True"
| "is_OSError _ = False"

fun is_ValueError :: "exn \<Rightarrow> bool" where
  "is_ValueError ValueError = True"
| "is_ValueError UnicodeDecodeError = True"
| "is_ValueError JSONDecodeError = True"
| "is_ValueError _ = False"

section \<open>The outside world\<close>

text \<open>
  \<open>subprocess.run\<close> either completes with a return code and the captured standard
  output, or raises before it has a result (the executable is missing, the output does
  not decode).
\<close>

datatype proc = Completed int string | RunRaises exn

text \<open>
  Writing a file is \<open>open(path, "w")\<close> followed by a write: when the open fails the
  file is as it was, when the write fails the open has already truncated it.
\<close>

datatype wr = WriteOk | OpenFails exn | WriteFails exn

text \<open>
  A parsed JSON document, as \<open>json.load\<close> returns it: \<open>JNull\<close> is Python's
  \<open>None\<close>, an object is a dictionary, given here as its members in the order of the
  document. Numbers are restricted to integers.
\<close>

datatype json =
    JNull
  | JBool bool
  | JInt int
  | JStr string
  | JArr "json list"
  | JObj "(string \<times> json) list"

text \<open>
  What happens to a metadata file: it does not exist, \<open>open\<close> raises, \<open>json.load\<close>
  raises, or \<open>json.load\<close> returns a document.
\<close>

datatype load = NoFile | OpenRaises exn | LoadRaises exn | Loaded json

text \<open>
  The conditions the program does not control. The supervisor: what it answers to a
  command line, given the command lines issued before it. The file operations on the
  fixed paths of \<open>config.py\<close>: \<open>None\<close> or \<open>WriteOk\<close> is success;
  \<open>mkdir_config_dir\<close> is the \<open>mkdir\<close> of the directory that holds both
  \<open>STATE_FILE\<close> and \<open>VOLUME_FILE\<close>. The values that \<open>config.py\<close> computes
  when it is imported: \<open>service_script\<close> is \<open>os.path.abspath('pivio-autostart.sh')\<close>,
  \<open>home\<close> the user's home directory. The file system as the scanner reads it.
  \<open>path_exists\<close> is \<open>Path(p).exists()\<close> for the path read from the state file:
  it answers, or it raises the \<open>OSError\<close> that \<open>pathlib\<close> does not swallow (a name
  that is too long, a directory that may not be searched).
\<close>

record env =
  systemctl :: "string list list \<Rightarrow> string list \<Rightarrow> proc"
  chmod_script :: "exn option"
  mkdir_service_dir :: "exn option"
  read_template :: "exn + string"
  write_service :: wr
  mkdir_config_dir :: "exn option"
  write_state :: wr
  read_state :: "exn option"
  unlink_state :: "exn option"
  write_volume :: wr
  read_volume :: "exn option"
  path_exists :: "string \<Rightarrow> exn + bool"
  service_script :: string
  home :: string
  isdir :: "string \<Rightarrow> bool"
  isfile :: "string \<Rightarrow> bool"
  listdir :: "string \<Rightarrow> exn + string list"
  load_json :: "string \<Rightarrow> load"

text \<open>
  What the program changes: the three files of \<open>config.py\<close> (\<open>STATE_FILE\<close>,
  \<open>VOLUME_FILE\<close>, \<open>SERVICE_PATH\<close>; \<open>None\<close> when the path does not exist), the
  mode of the launcher script, the directories it creates, and the list of supervisor
  command lines issued so far, oldest first. The three files are three fields because
  \<open>config.py\<close> gives them three different paths; a path that exists but cannot be
  read (a directory, a file without permission), or whose existence test itself raises,
  is a \<open>Some\<close> whose read and removal fail in the environment. The supervisor's
  commands are taken not to write any of the three.
\<close>

record world =
  state_file :: "string option"
  volume_file :: "string option"
  service_file :: "string option"
  script_mode :: nat
  service_dir :: bool
  config_dir :: bool
  log :: "string list list"

definition SERVICE_NAME :: string where
  "SERVICE_NAME = ''vwallppaper-autostart.service''"

section \<open>Strings\<close>

text \<open>
  \<open>str.isspace\<close> on the code points below 256: the ASCII white space, the four
  separators \<open>0x1c\<close> to \<open>0x1f\<close>, \<open>0x85\<close> and \<open>0xa0\<close>.
\<close>

definition isspace :: "char \<Rightarrow> bool" where
  "isspace c = (of_char c \<in> {9::nat, 10, 11, 12, 13, 28, 29, 30, 31, 32, 133, 160})"

definition strip :: "string \<Rightarrow> string" where
  "strip s = rev (dropWhile isspace (rev (dropWhile isspace s)))"

text \<open>\<open>str.replace(old, new)\<close>: every non-overlapping occurrence, left to right.\<close>

fun replace :: "string \<Rightarrow> string \<Rightarrow> string \<Rightarrow> string" where
  "replace old new [] = (if old = [] then new else [])"
| "replace old new (c # cs) =
     (if old = [] then new @ c # replace old new cs
      else if take (length old) (c # cs) = old
        then new @ replace old new (drop (length old) (c # cs))
      else c # replace old new cs)"

section \<open>SystemdManager\<close>

definition run_check :: "env \<Rightarrow> string list \<Rightarrow> world \<Rightarrow> (exn + unit) \<times> world" where
  \<comment> \<open>\<open>subprocess.run(args, check=True)\<close>\<close>
  "run_check e args w =
     (case systemctl e (log w) args of
        RunRaises x \<Rightarrow> (Inl x, w\<lparr>log := log w @ [args]\<rparr>)
      | Completed rc out \<Rightarrow>
          (if rc = 0 then Inr () else Inl CalledProcessError, w\<lparr>log := log w @ [args]\<rparr>))"

definition supervisor_call :: "env \<Rightarrow> string list \<Rightarrow> world \<Rightarrow> (exn + bool) \<times> world" where
  \<comment> \<open>the body shared by the five command wrappers:
      \<open>try: run(...); return True  except CalledProcessError: return False\<close>\<close>
  "supervisor_call e args w =
     (case run_check e args w of
        (Inr u, w') \<Rightarrow> (Inr True, w')
      | (Inl x, w') \<Rightarrow> (if x = CalledProcessError then Inr False else Inl x, w'))"

definition reload_daemon :: "env \<Rightarrow> world \<Rightarrow> (exn + bool) \<times> world" where
  "reload_daemon e = supervisor_call e [''systemctl'', ''--user'', ''daemon-reload'']"

definition enable_service :: "env \<Rightarrow> world \<Rightarrow> (exn + bool) \<times> world" where
  "enable_service e = supervisor_call e [''systemctl'', ''--user'', ''enable'', SERVICE_NAME]"

definition disable_service :: "env \<Rightarrow> world \<Rightarrow> (exn + bool) \<times> world" where
  "disable_service e = supervisor_call e [''systemctl'', ''--user'', ''disable'', SERVICE_NAME]"

definition start_service :: "env \<Rightarrow> world \<Rightarrow> (exn + bool) \<times> world" where
  "start_service e = supervisor_call e [''systemctl'', ''--user'', ''start'', SERVICE_NAME]"

definition stop_service :: "env \<Rightarrow> world \<Rightarrow> (exn + bool) \<times> world" where
  "stop_service e = supervisor_call e [''systemctl'', ''--user'', ''stop'', SERVICE_NAME]"

definition write_service_file :: "env \<Rightarrow> string \<Rightarrow> world \<Rightarrow> (exn + bool) \<times> world" where
  \<comment> \<open>\<open>with open(service_path, "w") as f: f.write(service); return True\<close>\<close>
  "write_service_file e service w =
     (case write_service e of
        OpenFails x \<Rightarrow> (Inl x, w)
      | WriteFails x \<Rightarrow> (Inl x, w\<lparr>service_file := Some []\<rparr>)
      | WriteOk \<Rightarrow> (Inr True, w\<lparr>service_file := Some service\<rparr>))"

definition create_service_try :: "env \<Rightarrow> string \<Rightarrow> world \<Rightarrow> (exn + bool) \<times> world" where
  \<comment> \<open>the body of the \<open>try\<close> block of \<open>create_service\<close>\<close>
  "create_service_try e video_path w =
     (case read_template e of
        Inl x \<Rightarrow> (Inl x, w)
      | Inr template \<Rightarrow>
          write_service_file e
            (replace ''{{SERVICE_SCRIPT_PATH}}'' (service_script e)
               (replace ''{{VIDEO_PATH}}'' video_path template)) w)"

definition create_service :: "env \<Rightarrow> string \<Rightarrow> world \<Rightarrow> (exn + bool) \<times> world" where
  "create_service e video_path w =
     (case chmod_script e of
        Some x \<Rightarrow> (Inl x, w)
      | None \<Rightarrow>
         (let w1 = w\<lparr>script_mode := 493\<rparr> in
          case mkdir_service_dir e of
            Some x \<Rightarrow> (Inl x, w1)
          | None \<Rightarrow>
             (let w2 = w1\<lparr>service_dir := True\<rparr> in
              case create_service_try e video_path w2 of
                (Inl x, w3) \<Rightarrow> (Inr False, w3)
              | (Inr b, w3) \<Rightarrow> (Inr b, w3))))"

text \<open>The dictionary that \<open>get_service_status\<close> returns, with its three fixed keys.\<close>

record status =
  active :: bool
  enabled :: bool
  status :: string

definition run_capture :: "env \<Rightarrow> string list \<Rightarrow> world \<Rightarrow> (exn + int \<times> string) \<times> world" where
  \<comment> \<open>\<open>subprocess.run(args, capture_output=True, text=True)\<close>\<close>
  "run_capture e args w =
     (case systemctl e (log w) args of
        RunRaises x \<Rightarrow> (Inl x, w\<lparr>log := log w @ [args]\<rparr>)
      | Completed rc out \<Rightarrow> (Inr (rc, out), w\<lparr>log := log w @ [args]\<rparr>))"

definition status_try :: "env \<Rightarrow> status \<Rightarrow> world \<Rightarrow> (exn + unit) \<times> status \<times> world" where
  \<comment> \<open>the body of the \<open>try\<close> block of \<open>get_service_status\<close>; it updates the dictionary
      in place, so an exception leaves the entries already written\<close>
  "status_try e result w =
     (case run_capture e [''systemctl'', ''--user'', ''is-active'', SERVICE_NAME] w of
        (Inl x, w1) \<Rightarrow> (Inl x, result, w1)
      | (Inr (rc, out), w1) \<Rightarrow>
         (let result1 = result\<lparr>status := strip out\<rparr>;
              result2 = result1\<lparr>active := (rc = 0)\<rparr> in
          case run_capture e [''systemctl'', ''--user'', ''is-enabled'', SERVICE_NAME] w1 of
            (Inl x, w2) \<Rightarrow> (Inl x, result2, w2)
          | (Inr (rc', out'), w2) \<Rightarrow> (Inr (), result2\<lparr>enabled := (rc' = 0)\<rparr>, w2)))"

definition get_service_status :: "env \<Rightarrow> world \<Rightarrow> (exn + status) \<times> world" where
  "get_service_status e w =
     (case status_try e \<lparr>active = False, enabled = False, status = ''unknown''\<rparr> w of
        (Inl x, result, w') \<Rightarrow> (Inr result, w')   \<comment> \<open>\<open>except Exception: pass\<close>\<close>
      | (Inr u, result, w') \<Rightarrow> (Inr result, w'))"

section \<open>apply_wallpaper\<close>

definition apply_wallpaper :: "env \<Rightarrow> string \<Rightarrow> world \<Rightarrow> (exn + bool) \<times> world" where
  "apply_wallpaper e video_path w =
     (case stop_service e w of
        (Inl x, w1) \<Rightarrow> (Inl x, w1)
      | (Inr b1, w1) \<Rightarrow>
     (case create_service e video_path w1 of
        (Inl x, w2) \<Rightarrow> (Inl x, w2)
      | (Inr created, w2) \<Rightarrow>
         if \<not> created then (Inr False, w2) else
     (case reload_daemon e w2 of
        (Inl x, w3) \<Rightarrow> (Inl x, w3)
      | (Inr b3, w3) \<Rightarrow>
     (case enable_service e w3 of
        (Inl x, w4) \<Rightarrow> (Inl x, w4)
      | (Inr en, w4) \<Rightarrow>
         if \<not> en then (Inr False, w4) else
     (case start_service e w4 of
        (Inl x, w5) \<Rightarrow> (Inl x, w5)
      | (Inr started, w5) \<Rightarrow>
         if \<not> started then (Inr False, w5) else (Inr True, w5))))))"

section \<open>The volume file\<close>

text \<open>
  \<open>str(n)\<close> for an integer: the decimal digits, after a minus sign when \<open>n\<close> is
  negative.
\<close>

definition digit_char :: "nat \<Rightarrow> char" where
  "digit_char d = char_of (48 + d)"

fun str_nat :: "nat \<Rightarrow> string" where
  "str_nat n = (if n < 10 then [digit_char n] else str_nat (n div 10) @ [digit_char (n mod 10)])"

declare str_nat.simps [simp del]

definition str_int :: "int \<Rightarrow> string" where
  "str_int n = (if n < 0 then CHR ''-'' # str_nat (nat (- n)) else str_nat (nat n))"

text \<open>
  \<open>int(s)\<close> for a string of code points below 256: white space around, an optional
  sign, then decimal digits, where a single underscore may stand between two digits.
  \<open>None\<close> is \<open>ValueError\<close>. The interpreter's limit on the number of digits, which
  can be configured and switched off, is left out.
\<close>

definition isdigit :: "char \<Rightarrow> bool" where
  "isdigit c = (48 \<le> (of_char c :: nat) \<and> (of_char c :: nat) \<le> 57)"

definition digit_val :: "char \<Rightarrow> nat" where
  "digit_val c = of_char c - 48"

fun int_digits :: "string \<Rightarrow> nat \<Rightarrow> nat option" where
  "int_digits [] acc = Some acc"
| "int_digits (c # cs) acc =
     (if isdigit c then int_digits cs (10 * acc + digit_val c)
      else if c = CHR ''_'' \<and> cs \<noteq> [] \<and> isdigit (hd cs) then int_digits cs acc
      else None)"

definition int_unsigned :: "string \<Rightarrow> nat option" where
  "int_unsigned s = (if s \<noteq> [] \<and> isdigit (hd s) then int_digits s 0 else None)"

definition int_str :: "string \<Rightarrow> int option" where
  "int_str s =
     (case strip s of
        c # cs \<Rightarrow>
          (if c = CHR ''-'' then map_option (\<lambda>n. - int n) (int_unsigned cs)
           else if c = CHR ''+'' then map_option int (int_unsigned cs)
           else map_option int (int_unsigned (c # cs)))
      | [] \<Rightarrow> None)"

text \<open>The number that a string of digits denotes, read after the digits worth \<open>acc\<close>.\<close>

definition digits_value :: "nat \<Rightarrow> string \<Rightarrow> nat" where
  "digits_value acc ds = foldl (\<lambda>a c. 10 * a + digit_val c) acc ds"

definition write_volume_file :: "env \<Rightarrow> string \<Rightarrow> world \<Rightarrow> (exn + unit) \<times> world" where
  \<comment> \<open>\<open>VOLUME_FILE.write_text(data)\<close>\<close>
  "write_volume_file e data w =
     (case write_volume e of
        OpenFails x \<Rightarrow> (Inl x, w)
      | WriteFails x \<Rightarrow> (Inl x, w\<lparr>volume_file := Some []\<rparr>)
      | WriteOk \<Rightarrow> (Inr (), w\<lparr>volume_file := Some data\<rparr>))"

definition save_volume_try :: "env \<Rightarrow> int \<Rightarrow> world \<Rightarrow> (exn + bool) \<times> world" where
  \<comment> \<open>the body of the \<open>try\<close> block of \<open>save_volume\<close>\<close>
  "save_volume_try e volume w =
     (case mkdir_config_dir e of
        Some x \<Rightarrow> (Inl x, w)
      | None \<Rightarrow>
         (case write_volume_file e (str_int volume) (w\<lparr>config_dir := True\<rparr>) of
            (Inl x, w') \<Rightarrow> (Inl x, w')
          | (Inr u, w') \<Rightarrow> (Inr True, w')))"

definition save_volume :: "env \<Rightarrow> int \<Rightarrow> world \<Rightarrow> (exn + bool) \<times> world" where
  "save_volume e volume w =
     (case save_volume_try e volume w of
        (Inl x, w') \<Rightarrow> (Inr False, w')   \<comment> \<open>\<open>except Exception\<close>\<close>
      | (Inr b, w') \<Rightarrow> (Inr b, w'))"

definition get_volume_try :: "env \<Rightarrow> world \<Rightarrow> exn + int option" where
  \<comment> \<open>the body of the \<open>try\<close> block of \<open>get_volume\<close>; \<open>Inr None\<close> when it falls
      through without a \<open>return\<close>\<close>
  "get_volume_try e w =
     (case volume_file w of
        None \<Rightarrow> Inr None
      | Some content \<Rightarrow>
         (case read_volume e of
            Some x \<Rightarrow> Inl x
          | None \<Rightarrow>
             (case int_str (strip content) of
                None \<Rightarrow> Inl ValueError
              | Some n \<Rightarrow> Inr (Some n))))"

definition get_volume :: "env \<Rightarrow> world \<Rightarrow> exn + int" where
  "get_volume e w =
     (case get_volume_try e w of
        Inr (Some n) \<Rightarrow> Inr n
      | Inr None \<Rightarrow> Inr 50
      | Inl x \<Rightarrow> if is_ValueError x \<or> is_OSError x then Inr 50 else Inl x)"

section \<open>The scanner\<close>

definition WORKSHOP_PATHS :: "env \<Rightarrow> string list" where
  "WORKSHOP_PATHS e =
     [home e @ ''/.steam/debian-installation/steamapps/workshop/content/431960'',
      home e @ ''/.local/share/Steam/steamapps/workshop/content/431960'',
      home e @ ''/.var/app/com.valvesoftware.Steam/.local/share/Steam/steamapps/workshop/content/431960'']"

definition VALID_VIDEO_EXTENSIONS :: "string list" where
  "VALID_VIDEO_EXTENSIONS = [''.mp4'', ''.webm'']"

definition PREVIEW_EXTENSIONS :: "string list" where
  "PREVIEW_EXTENSIONS = [''preview.jpg'', ''preview.png'', ''preview.gif'', ''preview.jpeg'']"

text \<open>
  \<open>str.lower\<close> on the code points below 256: the ASCII capitals and the capitals of
  Latin-1 (\<open>0xc0\<close> to \<open>0xde\<close> without the multiplication sign \<open>0xd7\<close>) move up by 32.
\<close>

definition lower_char :: "char \<Rightarrow> char" where
  "lower_char c =
     (let n = (of_char c :: nat)
      in if (65 \<le> n \<and> n \<le> 90) \<or> (192 \<le> n \<and> n \<le> 222 \<and> n \<noteq> 215) then char_of (n + 32) else c)"

definition lower :: "string \<Rightarrow> string" where
  "lower s = map lower_char s"

text \<open>\<open>os.path.join\<close> of \<open>posixpath\<close>, for two and for three components.\<close>

definition join2 :: "string \<Rightarrow> string \<Rightarrow> string" where
  "join2 path b =
     (if b \<noteq> [] \<and> hd b = CHR ''/'' then b
      else if path = [] \<or> last path = CHR ''/'' then path @ b
      else path @ ''/'' @ b)"

definition join3 :: "string \<Rightarrow> string \<Rightarrow> string \<Rightarrow> string" where
  "join3 a b c = join2 (join2 a b) c"

text \<open>
  \<open>os.path.splitext(p)[1]\<close>: the text from the last dot of the last path component,
  empty when that component has no dot or when only dots come before that dot.
\<close>

definition basename :: "string \<Rightarrow> string" where
  "basename p = rev (takeWhile (\<lambda>c. c \<noteq> CHR ''/'') (rev p))"

definition splitext_ext :: "string \<Rightarrow> string" where
  "splitext_ext p =
     (let name = basename p;
          ext = rev (takeWhile (\<lambda>c. c \<noteq> CHR ''.'') (rev name));
          stem = take (length name - length ext - 1) name
      in if CHR ''.'' \<in> set name \<and> filter (\<lambda>c. c \<noteq> CHR ''.'') stem \<noteq> [] then CHR ''.'' # ext
         else [])"

record Wallpaper =
  title :: json
  file_path :: string
  preview_path :: "string option"
  folder_path :: string
  wallpaper_type :: json

fun get_workshop_path_loop :: "env \<Rightarrow> string list \<Rightarrow> string option" where
  "get_workshop_path_loop e [] = None"
| "get_workshop_path_loop e (p # ps) = (if isdir e p then Some p else get_workshop_path_loop e ps)"

definition get_workshop_path :: "env \<Rightarrow> string option" where
  "get_workshop_path e = get_workshop_path_loop e (WORKSHOP_PATHS e)"

fun find_preview_loop :: "string \<Rightarrow> string list \<Rightarrow> string option" where
  "find_preview_loop folder [] = None"
| "find_preview_loop folder (f # fs) =
     (if f \<in> set PREVIEW_EXTENSIONS then Some (join2 folder f) else find_preview_loop folder fs)"

definition find_preview :: "env \<Rightarrow> string \<Rightarrow> exn + string option" where
  "find_preview e folder =
     (case listdir e folder of
        Inl x \<Rightarrow> Inl x
      | Inr preview_files \<Rightarrow> Inr (find_preview_loop folder preview_files))"

definition parse_project_json :: "env \<Rightarrow> string \<Rightarrow> exn + json" where
  "parse_project_json e folder =
     (case load_json e (join2 folder ''project.json'') of
        NoFile \<Rightarrow> Inr JNull
      | OpenRaises x \<Rightarrow> Inl x
      | LoadRaises x \<Rightarrow> if x = JSONDecodeError \<or> is_OSError x then Inr JNull else Inl x
      | Loaded j \<Rightarrow> Inr j)"

text \<open>Python's truth value of a JSON value, as \<open>not project_json\<close> tests it.\<close>

fun truthy :: "json \<Rightarrow> bool" where
  "truthy JNull = False"
| "truthy (JBool b) = b"
| "truthy (JInt n) = (n \<noteq> 0)"
| "truthy (JStr s) = (s \<noteq> [])"
| "truthy (JArr xs) = (xs \<noteq> [])"
| "truthy (JObj kvs) = (kvs \<noteq> [])"

text \<open>
  \<open>project_json.get(key)\<close>: only a dictionary has \<open>get\<close>; a missing key gives
  \<open>None\<close>, and of a key that the document repeats the last member counts.
\<close>

fun json_get :: "json \<Rightarrow> string \<Rightarrow> exn + json" where
  "json_get (JObj kvs) k = (case map_of (rev kvs) k of None \<Rightarrow> Inr JNull | Some v \<Rightarrow> Inr v)"
| "json_get _ k = Inl AttributeError"

text \<open>\<open>v.lower()\<close>: only a string has \<open>lower\<close>.\<close>

fun json_lower :: "json \<Rightarrow> exn + string" where
  "json_lower (JStr s) = Inr (lower s)"
| "json_lower _ = Inl AttributeError"

text \<open>A value handed to \<open>os.path\<close> as a path component: anything but a string is a \<open>TypeError\<close>.\<close>

fun json_path :: "json \<Rightarrow> exn + string" where
  "json_path (JStr s) = Inr s"
| "json_path _ = Inl TypeError"

definition video_filter :: "json \<Rightarrow> json \<Rightarrow> exn + bool" where
  \<comment> \<open>the block under \<open>if filter_videos_only\<close>; \<open>Inr False\<close> is \<open>continue\<close>\<close>
  "video_filter type_value file_name =
     (case json_lower type_value of
        Inl x \<Rightarrow> Inl x
      | Inr t \<Rightarrow>
         if t \<in> set [''scene'', ''web''] then Inr False
         else (case json_path file_name of
                 Inl x \<Rightarrow> Inl x
               | Inr f \<Rightarrow> Inr (lower (splitext_ext f) \<in> set VALID_VIDEO_EXTENSIONS)))"

definition scan_entry :: "env \<Rightarrow> bool \<Rightarrow> string \<Rightarrow> string \<Rightarrow> json \<Rightarrow> exn + Wallpaper option" where
  \<comment> \<open>the loop body of \<open>scan\<close> after \<open>if not project_json: continue\<close>;
      \<open>Inr None\<close> is \<open>continue\<close>\<close>
  "scan_entry e filter_videos_only workshop_path wallpaper_folder project_json =
     (case json_get project_json ''title'' of
        Inl x \<Rightarrow> Inl x
      | Inr title_value \<Rightarrow>
     (case json_get project_json ''file'' of
        Inl x \<Rightarrow> Inl x
      | Inr file_name \<Rightarrow>
     (case json_get project_json ''type'' of
        Inl x \<Rightarrow> Inl x
      | Inr type_value \<Rightarrow>
     (case (if filter_videos_only then video_filter type_value file_name else Inr True) of
        Inl x \<Rightarrow> Inl x
      | Inr keep \<Rightarrow>
         if \<not> keep then Inr None else
     (case json_path file_name of
        Inl x \<Rightarrow> Inl x
      | Inr f \<Rightarrow>
         if \<not> isfile e (join3 workshop_path wallpaper_folder f) then Inr None else
     (case find_preview e (join2 workshop_path wallpaper_folder) of
        Inl x \<Rightarrow> Inl x
      | Inr preview \<Rightarrow>
         Inr (Some \<lparr>title = title_value,
                    file_path = join3 workshop_path wallpaper_folder f,
                    preview_path = preview,
                    folder_path = join2 workshop_path wallpaper_folder,
                    wallpaper_type = type_value\<rparr>)))))))"

fun scan_loop :: "env \<Rightarrow> bool \<Rightarrow> string \<Rightarrow> string list \<Rightarrow> Wallpaper list \<Rightarrow> exn + Wallpaper list" where
  "scan_loop e filter_videos_only workshop_path [] wallpapers = Inr wallpapers"
| "scan_loop e filter_videos_only workshop_path (wallpaper_folder # rest) wallpapers =
     (case parse_project_json e (join2 workshop_path wallpaper_folder) of
        Inl x \<Rightarrow> Inl x
      | Inr project_json \<Rightarrow>
         if \<not> truthy project_json
         then scan_loop e filter_videos_only workshop_path rest wallpapers
         else (case scan_entry e filter_videos_only workshop_path wallpaper_folder project_json of
                 Inl x \<Rightarrow> Inl x
               | Inr None \<Rightarrow> scan_loop e filter_videos_only workshop_path rest wallpapers
               | Inr (Some wp) \<Rightarrow>
                   scan_loop e filter_videos_only workshop_path rest (wallpapers @ [wp])))"

text \<open>
  \<open>wallpapers.sort(key=lambda w: w.title.lower())\<close>: the keys of all elements are
  computed first, in list order, and the first one that raises ends the sort; then the
  list is sorted stably by key, strings comparing code point by code point.
\<close>

fun sort_keys :: "Wallpaper list \<Rightarrow> exn + (string \<times> Wallpaper) list" where
  "sort_keys [] = Inr []"
| "sort_keys (wp # wps) =
     (case json_lower (title wp) of
        Inl x \<Rightarrow> Inl x
      | Inr k \<Rightarrow> (case sort_keys wps of Inl x \<Rightarrow> Inl x | Inr kws \<Rightarrow> Inr ((k, wp) # kws)))"

definition sort_by_title :: "Wallpaper list \<Rightarrow> exn + Wallpaper list" where
  "sort_by_title wps =
     (case sort_keys wps of
        Inl x \<Rightarrow> Inl x
      | Inr kws \<Rightarrow> Inr (map snd (sort_key fst kws)))"

definition scan :: "env \<Rightarrow> bool \<Rightarrow> exn + Wallpaper list" where
  "scan e filter_videos_only =
     (case get_workshop_path e of
        None \<Rightarrow> Inr []
      | Some workshop_path \<Rightarrow>
         if workshop_path = [] then Inr []
         else (case listdir e workshop_path of
                 Inl x \<Rightarrow> Inl x
               | Inr folders \<Rightarrow>
                  (case scan_loop e filter_videos_only workshop_path folders [] of
                     Inl x \<Rightarrow> Inl x
                   | Inr wallpapers \<Rightarrow> sort_by_title wallpapers)))"

section \<open>The state file and the window\<close>

definition save_current_wallpaper :: "env \<Rightarrow> string \<Rightarrow> world \<Rightarrow> (exn + unit) \<times> world" where
  "save_current_wallpaper e path w =
     (case mkdir_config_dir e of
        Some x \<Rightarrow> (Inl x, w)
      | None \<Rightarrow>
         (case write_state e of
            OpenFails x \<Rightarrow> (Inl x, w\<lparr>config_dir := True\<rparr>)
          | WriteFails x \<Rightarrow> (Inl x, w\<lparr>config_dir := True, state_file := Some []\<rparr>)
          | WriteOk \<Rightarrow> (Inr (), w\<lparr>config_dir := True, state_file := Some path\<rparr>)))"

definition get_current_wallpaper :: "env \<Rightarrow> world \<Rightarrow> (exn + string option) \<times> world" where
  "get_current_wallpaper e w =
     (case get_service_status e w of
        (Inl x, w') \<Rightarrow> (Inl x, w')
      | (Inr st, w') \<Rightarrow>
         if \<not> active st then (Inr None, w')
         else (case state_file w' of
                 None \<Rightarrow> (Inr None, w')
               | Some content \<Rightarrow>
                  (case read_state e of
                     Some x \<Rightarrow> (Inl x, w')
                   | None \<Rightarrow>
                      if strip content = [] then (Inr None, w')
                      else (case path_exists e (strip content) of
                              Inl x \<Rightarrow> (Inl x, w')
                            | Inr found \<Rightarrow>
                                if found then (Inr (Some (strip content)), w')
                                else (Inr None, w')))))"

definition clear_current_wallpaper :: "env \<Rightarrow> world \<Rightarrow> (exn + unit) \<times> world" where
  "clear_current_wallpaper e w =
     (if state_file w \<noteq> None
      then (case unlink_state e of
              Some x \<Rightarrow> (Inl x, w)
            | None \<Rightarrow> (Inr (), w\<lparr>state_file := None\<rparr>))
      else (Inr (), w))"

text \<open>
  Of \<open>MainWindow\<close>: the selected wallpaper, the path shown as running, the rows of
  the side bar with their "current" mark, and the message boxes shown so far.
\<close>

datatype dialog = NoSelection | NotFound | ApplyFailed

record gui =
  current_wallpaper :: "Wallpaper option"
  running_wallpaper_path :: "string option"
  sidebar :: "(Wallpaper \<times> bool) list"
  dialogs :: "dialog list"

definition load_wallpapers :: "env \<Rightarrow> gui \<Rightarrow> world \<Rightarrow> (exn + unit) \<times> gui \<times> world" where
  \<comment> \<open>\<open>MainWindow._load_wallpapers\<close>\<close>
  "load_wallpapers e g w =
     (let g1 = g\<lparr>sidebar := []\<rparr> in
      case get_current_wallpaper e w of
        (Inl x, w') \<Rightarrow> (Inl x, g1, w')
      | (Inr running, w') \<Rightarrow>
         (let g2 = g1\<lparr>running_wallpaper_path := running\<rparr> in
          case scan e True of
            Inl x \<Rightarrow> (Inl x, g2, w')
          | Inr wallpapers \<Rightarrow>
             if wallpapers = []
             then (if get_workshop_path e = None \<or> get_workshop_path e = Some []
                   then (Inr (), g2\<lparr>dialogs := dialogs g2 @ [NotFound]\<rparr>, w')
                   else (Inr (), g2, w'))
             else (Inr (),
                   g2\<lparr>sidebar :=
                        map (\<lambda>wp. (wp, running \<noteq> None \<and> Some (file_path wp) = running))
                          wallpapers\<rparr>,
                   w')))"

definition on_apply :: "env \<Rightarrow> gui \<Rightarrow> world \<Rightarrow> (exn + unit) \<times> gui \<times> world" where
  \<comment> \<open>\<open>MainWindow._on_apply\<close>\<close>
  "on_apply e g w =
     (case current_wallpaper g of
        None \<Rightarrow> (Inr (), g\<lparr>dialogs := dialogs g @ [NoSelection]\<rparr>, w)
      | Some wp \<Rightarrow>
         (case apply_wallpaper e (file_path wp) w of
            (Inl x, w1) \<Rightarrow> (Inl x, g, w1)
          | (Inr success, w1) \<Rightarrow>
             if success
             then (case save_current_wallpaper e (file_path wp) w1 of
                     (Inl x, w2) \<Rightarrow> (Inl x, g, w2)
                   | (Inr u, w2) \<Rightarrow> load_wallpapers e g w2)
             else (Inr (), g\<lparr>dialogs := dialogs g @ [ApplyFailed]\<rparr>, w1)))"

definition on_stop :: "env \<Rightarrow> gui \<Rightarrow> world \<Rightarrow> (exn + unit) \<times> gui \<times> world" where
  \<comment> \<open>\<open>MainWindow._on_stop\<close>\<close>
  "on_stop e g w =
     (case stop_service e w of
        (Inl x, w1) \<Rightarrow> (Inl x, g, w1)
      | (Inr b1, w1) \<Rightarrow>
     (case disable_service e w1 of
        (Inl x, w2) \<Rightarrow> (Inl x, g, w2)
      | (Inr b2, w2) \<Rightarrow>
     (case clear_current_wallpaper e w2 of
        (Inl x, w3) \<Rightarrow> (Inl x, g, w3)
      | (Inr u, w3) \<Rightarrow> load_wallpapers e g w3)))"

section \<open>Example environments\<close>

text \<open>
  A machine on which everything works: the supervisor answers every command with exit
  code 0 and the line \<open>active\<close>, no file operation fails, and the workshop directory of
  the second install layout holds two wallpapers, \<open>Ocean\<close> and \<open>forest\<close>.
\<close>

definition workshop_dir :: string where
  "workshop_dir = ''/home/u/.local/share/Steam/steamapps/workshop/content/431960''"

definition ocean_json :: json where
  "ocean_json = JObj [(''title'', JStr ''Ocean''), (''file'', JStr ''ocean.mp4''), (''type'', JStr ''video'')]"

definition forest_json :: json where
  "forest_json = JObj [(''title'', JStr ''forest''), (''file'', JStr ''forest.webm''), (''type'', JStr ''Video'')]"

definition env_ok :: env where
  "env_ok =
     \<lparr>systemctl = (\<lambda>h args. Completed 0 (''active'' @ [CHR 0x0A])),
      chmod_script = None,
      mkdir_service_dir = None,
      read_template = Inr ''ExecStart={{SERVICE_SCRIPT_PATH}} {{VIDEO_PATH}}'',
      write_service = WriteOk,
      mkdir_config_dir = None,
      write_state = WriteOk,
      read_state = None,
      unlink_state = None,
      write_volume = WriteOk,
      read_volume = None,
      path_exists = (\<lambda>p. Inr (p = ''/videos/old.mp4'')),
      service_script = ''/opt/pivio/pivio-autostart.sh'',
      home = ''/home/u'',
      isdir = (\<lambda>p. p = workshop_dir),
      isfile = (\<lambda>p. p = workshop_dir @ ''/1001/ocean.mp4'' \<or> p = workshop_dir @ ''/1002/forest.webm''),
      listdir = (\<lambda>p. if p = workshop_dir then Inr [''1001'', ''1002'']
                     else if p = workshop_dir @ ''/1001'' then Inr [''ocean.mp4'', ''preview.jpg'', ''project.json'']
                     else if p = workshop_dir @ ''/1002'' then Inr [''forest.webm'', ''project.json'']
                     else Inl FileNotFoundError),
      load_json = (\<lambda>p. if p = workshop_dir @ ''/1001/project.json'' then Loaded ocean_json
                       else if p = workshop_dir @ ''/1002/project.json'' then Loaded forest_json
                       else NoFile)\<rparr>"

text \<open>The same machine with one supervisor command answering with exit code 1.\<close>

definition env_failing :: "string list \<Rightarrow> env" where
  "env_failing cmd =
     env_ok\<lparr>systemctl := (\<lambda>h args. if args = cmd then Completed 1 [] else Completed 0 (''active'' @ [CHR 0x0A]))\<rparr>"

definition reload_cmd :: "string list" where
  "reload_cmd = [''systemctl'', ''--user'', ''daemon-reload'']"

definition enable_cmd :: "string list" where
  "enable_cmd = [''systemctl'', ''--user'', ''enable'', SERVICE_NAME]"

definition disable_cmd :: "string list" where
  "disable_cmd = [''systemctl'', ''--user'', ''disable'', SERVICE_NAME]"

definition start_cmd :: "string list" where
  "start_cmd = [''systemctl'', ''--user'', ''start'', SERVICE_NAME]"

definition stop_cmd :: "string list" where
  "stop_cmd = [''systemctl'', ''--user'', ''stop'', SERVICE_NAME]"

definition is_active_cmd :: "string list" where
  "is_active_cmd = [''systemctl'', ''--user'', ''is-active'', SERVICE_NAME]"

definition is_enabled_cmd :: "string list" where
  "is_enabled_cmd = [''systemctl'', ''--user'', ''is-enabled'', SERVICE_NAME]"

text \<open>A first start: no file written yet. And a machine on which a wallpaper was applied before.\<close>

definition world_fresh :: world where
  "world_fresh =
     \<lparr>state_file = None, volume_file = None, service_file = None, script_mode = 420,
      service_dir = False, config_dir = False, log = []\<rparr>"

definition world_applied :: world where
  "world_applied =
     \<lparr>state_file = Some ''/videos/old.mp4'', volume_file = Some ''80'',
      service_file = Some ''ExecStart=/opt/pivio/pivio-autostart.sh /videos/old.mp4'',
      script_mode = 493, service_dir = True, config_dir = True, log = []\<rparr>"

definition ocean :: Wallpaper where
  "ocean =
     \<lparr>title = JStr ''Ocean'', file_path = workshop_dir @ ''/1001/ocean.mp4'',
      preview_path = Some (workshop_dir @ ''/1001/preview.jpg''),
      folder_path = workshop_dir @ ''/1001'', wallpaper_type = JStr ''video''\<rparr>"

definition gui_ocean :: gui where
  "gui_ocean = \<lparr>current_wallpaper = Some ocean, running_wallpaper_path = None, sidebar = [], dialogs = []\<rparr>"

text \<open>
  The same machine with one supervisor command that cannot be run at all, with a
  supervisor that answers every command with exit code 1 and the line \<open>inactive\<close>, and
  with the metadata of the first workshop folder replaced.
\<close>

definition env_raising :: "string list \<Rightarrow> exn \<Rightarrow> env" where
  "env_raising cmd x =
     env_ok\<lparr>systemctl := (\<lambda>h args. if args = cmd then RunRaises x else Completed 0 (''active'' @ [CHR 0x0A]))\<rparr>"

definition env_down :: env where
  "env_down = env_ok\<lparr>systemctl := (\<lambda>h args. Completed 1 (''inactive'' @ [CHR 0x0A]))\<rparr>"

definition env_metadata :: "load \<Rightarrow> env" where
  "env_metadata l =
     env_ok\<lparr>load_json := (\<lambda>p. if p = workshop_dir @ ''/1001/project.json'' then l
                             else load_json env_ok p)\<rparr>"

section \<open>Supervisor commands\<close>

lemma supervisor_call_world:
  "snd (supervisor_call e args w) = w\<lparr>log := log w @ [args]\<rparr>"
  by (simp add: supervisor_call_def run_check_def split: proc.splits)

lemma supervisor_call_eq:
  "supervisor_call e args w = (r, w') \<Longrightarrow> w' = w\<lparr>log := log w @ [args]\<rparr>"
  using supervisor_call_world [of e args w] by simp

lemma supervisor_call_keeps:
  "supervisor_call e args w = (r, w') \<Longrightarrow>
     state_file w' = state_file w \<and> volume_file w' = volume_file w"
  by (auto dest: supervisor_call_eq)

lemma supervisor_call_completed:
  "systemctl e (log w) args = Completed rc out \<Longrightarrow>
     supervisor_call e args w = (Inr (rc = 0), w\<lparr>log := log w @ [args]\<rparr>)"
  by (simp add: supervisor_call_def run_check_def)

lemma env_failing_call:
  "supervisor_call (env_failing cmd) args w = (Inr (args \<noteq> cmd), w\<lparr>log := log w @ [args]\<rparr>)"
  by (simp add: supervisor_call_def run_check_def env_failing_def)

section \<open>What create_service leaves alone\<close>

lemma create_service_keeps:
  "create_service e p w = (r, w') \<Longrightarrow>
     log w' = log w \<and> state_file w' = state_file w \<and> volume_file w' = volume_file w"
  by (auto simp: create_service_def create_service_try_def write_service_file_def Let_def
      split: option.splits sum.splits wr.splits prod.splits)

lemma env_failing_create:
  "create_service (env_failing cmd) p w =
     (Inr True, w\<lparr>script_mode := 493, service_dir := True,
        service_file := Some (replace ''{{SERVICE_SCRIPT_PATH}}'' ''/opt/pivio/pivio-autostart.sh''
          (replace ''{{VIDEO_PATH}}'' p ''ExecStart={{SERVICE_SCRIPT_PATH}} {{VIDEO_PATH}}''))\<rparr>)"
  by (simp add: create_service_def create_service_try_def write_service_file_def env_failing_def
      env_ok_def Let_def)

section \<open>The gates of apply_wallpaper\<close>

lemma apply_wallpaper_keeps:
  "apply_wallpaper e p w = (r, w') \<Longrightarrow>
     state_file w' = state_file w \<and> volume_file w' = volume_file w"
  unfolding apply_wallpaper_def stop_service_def reload_daemon_def enable_service_def
    start_service_def
  by (auto split: prod.splits sum.splits if_splits
      dest!: supervisor_call_keeps create_service_keeps)

lemma apply_wallpaper_success:
  "fst (apply_wallpaper e p w) = Inr True \<Longrightarrow>
     \<exists>b1 w1 w2 b3 w3 w4. stop_service e w = (Inr b1, w1) \<and> create_service e p w1 = (Inr True, w2)
        \<and> reload_daemon e w2 = (Inr b3, w3) \<and> enable_service e w3 = (Inr True, w4)
        \<and> fst (start_service e w4) = Inr True"
  by (auto simp: apply_wallpaper_def split: prod.splits sum.splits if_splits)

text \<open>
  C1, as the code has it. \<open>apply_wallpaper\<close> gates on three of its steps: when
  \<open>create_service\<close> returns \<open>False\<close> the result is \<open>False\<close> and only the stop command
  has been issued; when \<open>enable_service\<close> returns \<open>False\<close> the result is \<open>False\<close> and
  the start command is never issued; otherwise the result is that of \<open>start_service\<close>.
  The result \<open>b3\<close> of \<open>reload_daemon\<close> is not looked at. Conversely a result of
  \<open>True\<close> means that \<open>create_service\<close>, \<open>enable_service\<close> and \<open>start_service\<close>
  each returned \<open>True\<close>.
\<close>

theorem apply_wallpaper_gates:
  "(stop_service e w = (Inr b1, w1) \<longrightarrow> create_service e p w1 = (Inr False, w2) \<longrightarrow>
      apply_wallpaper e p w = (Inr False, w2) \<and> log w2 = log w @ [stop_cmd])
   \<and> (stop_service e w = (Inr b1, w1) \<longrightarrow> create_service e p w1 = (Inr True, w2) \<longrightarrow>
      reload_daemon e w2 = (Inr b3, w3) \<longrightarrow> enable_service e w3 = (Inr False, w4) \<longrightarrow>
      apply_wallpaper e p w = (Inr False, w4)
        \<and> log w4 = log w @ [stop_cmd, reload_cmd, enable_cmd])
   \<and> (stop_service e w = (Inr b1, w1) \<longrightarrow> create_service e p w1 = (Inr True, w2) \<longrightarrow>
      reload_daemon e w2 = (Inr b3, w3) \<longrightarrow> enable_service e w3 = (Inr True, w4) \<longrightarrow>
      start_service e w4 = (Inr st, w5) \<longrightarrow>
      apply_wallpaper e p w = (Inr st, w5)
        \<and> log w5 = log w @ [stop_cmd, reload_cmd, enable_cmd, start_cmd])
   \<and> (fst (apply_wallpaper e p w) = Inr True \<longrightarrow>
      (\<exists>c1 v1 v2 c3 v3 v4. stop_service e w = (Inr c1, v1)
         \<and> create_service e p v1 = (Inr True, v2) \<and> reload_daemon e v2 = (Inr c3, v3)
         \<and> enable_service e v3 = (Inr True, v4) \<and> fst (start_service e v4) = Inr True))"
proof (intro conjI impI)
  assume a: "stop_service e w = (Inr b1, w1)" "create_service e p w1 = (Inr False, w2)"
  show "apply_wallpaper e p w = (Inr False, w2)"
    using a by (simp add: apply_wallpaper_def)
  show "log w2 = log w @ [stop_cmd]"
    using a(1) create_service_keeps [OF a(2)]
    by (auto simp: stop_service_def stop_cmd_def dest: supervisor_call_eq)
next
  assume a: "stop_service e w = (Inr b1, w1)" "create_service e p w1 = (Inr True, w2)"
    "reload_daemon e w2 = (Inr b3, w3)" "enable_service e w3 = (Inr False, w4)"
  show "apply_wallpaper e p w = (Inr False, w4)"
    using a by (simp add: apply_wallpaper_def)
  show "log w4 = log w @ [stop_cmd, reload_cmd, enable_cmd]"
    using a(1,3,4) create_service_keeps [OF a(2)]
    by (auto simp: stop_service_def stop_cmd_def reload_daemon_def reload_cmd_def
        enable_service_def enable_cmd_def dest!: supervisor_call_eq)
next
  assume a: "stop_service e w = (Inr b1, w1)" "create_service e p w1 = (Inr True, w2)"
    "reload_daemon e w2 = (Inr b3, w3)" "enable_service e w3 = (Inr True, w4)"
    "start_service e w4 = (Inr st, w5)"
  show "apply_wallpaper e p w = (Inr st, w5)"
    using a by (simp add: apply_wallpaper_def)
  show "log w5 = log w @ [stop_cmd, reload_cmd, enable_cmd, start_cmd]"
    using a(1,3,4,5) create_service_keeps [OF a(2)]
    by (auto simp: stop_service_def stop_cmd_def reload_daemon_def reload_cmd_def
        enable_service_def enable_cmd_def start_service_def start_cmd_def
        dest!: supervisor_call_eq)
next
  assume "fst (apply_wallpaper e p w) = Inr True"
  then show "\<exists>c1 v1 v2 c3 v3 v4. stop_service e w = (Inr c1, v1)
         \<and> create_service e p v1 = (Inr True, v2) \<and> reload_daemon e v2 = (Inr c3, v3)
         \<and> enable_service e v3 = (Inr True, v4) \<and> fst (start_service e v4) = Inr True"
    by (rule apply_wallpaper_success)
qed

text \<open>
  The gates at work on the example machine: with the enable command failing, the
  second gate gives \<open>False\<close> and a log that ends with the enable command; with the
  template unreadable, the first gate gives \<open>False\<close> after the stop command alone; with
  the start command failing, the third gate gives \<open>False\<close> after all four commands.
\<close>

theorem apply_wallpaper_gates_witness:
  "fst (apply_wallpaper (env_failing enable_cmd) ''/videos/new.mp4'' world_fresh) = Inr False
   \<and> log (snd (apply_wallpaper (env_failing enable_cmd) ''/videos/new.mp4'' world_fresh))
       = [stop_cmd, reload_cmd, enable_cmd]
   \<and> fst (apply_wallpaper (env_ok\<lparr>read_template := Inl FileNotFoundError\<rparr>) ''/videos/new.mp4''
        world_fresh) = Inr False
   \<and> log (snd (apply_wallpaper (env_ok\<lparr>read_template := Inl FileNotFoundError\<rparr>)
        ''/videos/new.mp4'' world_fresh)) = [stop_cmd]
   \<and> fst (apply_wallpaper (env_failing start_cmd) ''/videos/new.mp4'' world_fresh) = Inr False
   \<and> log (snd (apply_wallpaper (env_failing start_cmd) ''/videos/new.mp4'' world_fresh))
       = [stop_cmd, reload_cmd, enable_cmd, start_cmd]"
proof -
  let ?p = "''/videos/new.mp4''"
  let ?e = "env_failing enable_cmd"
  let ?w1 = "snd (stop_service ?e world_fresh)"
  let ?w2 = "snd (create_service ?e ?p ?w1)"
  let ?w3 = "snd (reload_daemon ?e ?w2)"
  let ?w4 = "snd (enable_service ?e ?w3)"
  have e1: "stop_service ?e world_fresh = (Inr True, ?w1)"
    by (simp add: stop_service_def env_failing_call enable_cmd_def)
  have e2: "create_service ?e ?p ?w1 = (Inr True, ?w2)"
    by (simp add: env_failing_create)
  have e3: "reload_daemon ?e ?w2 = (Inr True, ?w3)"
    by (simp add: reload_daemon_def env_failing_call enable_cmd_def)
  have e4: "enable_service ?e ?w3 = (Inr False, ?w4)"
    by (simp add: enable_service_def env_failing_call enable_cmd_def)
  have "apply_wallpaper ?e ?p world_fresh = (Inr False, ?w4)
          \<and> log ?w4 = log world_fresh @ [stop_cmd, reload_cmd, enable_cmd]"
    using apply_wallpaper_gates [of ?e world_fresh True ?w1 ?p ?w2 True ?w3 ?w4] e1 e2 e3 e4
    by blast
  then have A: "fst (apply_wallpaper ?e ?p world_fresh) = Inr False
      \<and> log (snd (apply_wallpaper ?e ?p world_fresh)) = [stop_cmd, reload_cmd, enable_cmd]"
    by (simp add: world_fresh_def)
  let ?t = "env_ok\<lparr>read_template := Inl FileNotFoundError\<rparr>"
  let ?u1 = "snd (stop_service ?t world_fresh)"
  let ?u2 = "snd (create_service ?t ?p ?u1)"
  have t1: "stop_service ?t world_fresh = (Inr True, ?u1)"
    by (simp add: stop_service_def supervisor_call_def run_check_def env_ok_def)
  have t2: "create_service ?t ?p ?u1 = (Inr False, ?u2)"
    by (simp add: create_service_def create_service_try_def env_ok_def Let_def)
  have "apply_wallpaper ?t ?p world_fresh = (Inr False, ?u2)
          \<and> log ?u2 = log world_fresh @ [stop_cmd]"
    using apply_wallpaper_gates [of ?t world_fresh True ?u1 ?p ?u2] t1 t2 by blast
  then have B: "fst (apply_wallpaper ?t ?p world_fresh) = Inr False
      \<and> log (snd (apply_wallpaper ?t ?p world_fresh)) = [stop_cmd]"
    by (simp add: world_fresh_def)
  let ?s = "env_failing start_cmd"
  let ?v1 = "snd (stop_service ?s world_fresh)"
  let ?v2 = "snd (create_service ?s ?p ?v1)"
  let ?v3 = "snd (reload_daemon ?s ?v2)"
  let ?v4 = "snd (enable_service ?s ?v3)"
  let ?v5 = "snd (start_service ?s ?v4)"
  have s1: "stop_service ?s world_fresh = (Inr True, ?v1)"
    by (simp add: stop_service_def env_failing_call start_cmd_def)
  have s2: "create_service ?s ?p ?v1 = (Inr True, ?v2)"
    by (simp add: env_failing_create)
  have s3: "reload_daemon ?s ?v2 = (Inr True, ?v3)"
    by (simp add: reload_daemon_def env_failing_call start_cmd_def)
  have s4: "enable_service ?s ?v3 = (Inr True, ?v4)"
    by (simp add: enable_service_def env_failing_call start_cmd_def)
  have s5: "start_service ?s ?v4 = (Inr False, ?v5)"
    by (simp add: start_service_def env_failing_call start_cmd_def)
  have "apply_wallpaper ?s ?p world_fresh = (Inr False, ?v5)
          \<and> log ?v5 = log world_fresh @ [stop_cmd, reload_cmd, enable_cmd, start_cmd]"
    using apply_wallpaper_gates [of ?s world_fresh True ?v1 ?p ?v2 True ?v3 ?v4 False ?v5]
      s1 s2 s3 s4 s5 by blast
  then have C: "fst (apply_wallpaper ?s ?p world_fresh) = Inr False
      \<and> log (snd (apply_wallpaper ?s ?p world_fresh)) = [stop_cmd, reload_cmd, enable_cmd, start_cmd]"
    by (simp add: world_fresh_def)
  show ?thesis using A B C by simp
qed

text \<open>
  C1 as stated fails: on the example machine with the reload command answering with
  exit code 1, \<open>reload_daemon\<close> returns \<open>False\<close> at the point where
  \<open>apply_wallpaper\<close> calls it, and \<open>apply_wallpaper\<close> returns \<open>True\<close>.
\<close>

theorem apply_wallpaper_reload_counterexample:
  "fst (reload_daemon (env_failing reload_cmd)
          (snd (create_service (env_failing reload_cmd) ''/videos/new.mp4''
             (snd (stop_service (env_failing reload_cmd) world_fresh))))) = Inr False
   \<and> fst (apply_wallpaper (env_failing reload_cmd) ''/videos/new.mp4'' world_fresh) = Inr True"
  by (simp add: apply_wallpaper_def reload_daemon_def stop_service_def enable_service_def
      start_service_def env_failing_call env_failing_create reload_cmd_def SERVICE_NAME_def)

section \<open>Who writes the state file\<close>

lemma get_service_status_total: "\<exists>st. fst (get_service_status e w) = Inr st"
  by (simp add: get_service_status_def split: prod.splits sum.splits)

lemma get_service_status_state:
  "state_file (snd (get_service_status e w)) = state_file w"
  by (simp add: get_service_status_def status_try_def run_capture_def Let_def
      split: proc.splits prod.splits sum.splits)

lemma get_current_wallpaper_state:
  "state_file (snd (get_current_wallpaper e w)) = state_file w"
  using get_service_status_state [of e w]
  by (auto simp: get_current_wallpaper_def split: prod.splits sum.splits option.splits)

lemma load_wallpapers_state:
  "state_file (snd (snd (load_wallpapers e g w))) = state_file w"
  using get_current_wallpaper_state [of e w]
  by (auto simp: load_wallpapers_def Let_def split: prod.splits sum.splits)

lemma on_apply_writes_only_after_success:
  "current_wallpaper g = Some wp \<Longrightarrow> fst (apply_wallpaper e (file_path wp) w) \<noteq> Inr True \<Longrightarrow>
     state_file (snd (snd (on_apply e g w))) = state_file w"
  by (auto simp: on_apply_def split: prod.splits sum.splits option.splits
      dest: apply_wallpaper_keeps)

text \<open>
  C2. With a wallpaper selected, when \<open>apply_wallpaper\<close> gets as far as
  \<open>enable_service\<close> and that returns \<open>False\<close>, then \<open>apply_wallpaper\<close> returns
  \<open>False\<close>, \<open>_on_apply\<close> shows the error box and writes nothing, and the state file is
  what it was before the call.
\<close>

theorem on_apply_enable_failure:
  assumes "current_wallpaper g = Some wp"
    and "stop_service e w = (Inr b1, w1)"
    and "create_service e (file_path wp) w1 = (Inr True, w2)"
    and "reload_daemon e w2 = (Inr b3, w3)"
    and "enable_service e w3 = (Inr False, w4)"
  shows "apply_wallpaper e (file_path wp) w = (Inr False, w4)
    \<and> on_apply e g w = (Inr (), g\<lparr>dialogs := dialogs g @ [ApplyFailed]\<rparr>, w4)
    \<and> state_file w4 = state_file w"
proof -
  have a: "apply_wallpaper e (file_path wp) w = (Inr False, w4)"
    using assms by (simp add: apply_wallpaper_def)
  moreover have "on_apply e g w = (Inr (), g\<lparr>dialogs := dialogs g @ [ApplyFailed]\<rparr>, w4)"
    using assms(1) a by (simp add: on_apply_def)
  moreover have "state_file w4 = state_file w"
    using apply_wallpaper_keeps [OF a] by simp
  ultimately show ?thesis by simp
qed

text \<open>
  On the machine where \<open>/videos/old.mp4\<close> was applied before and the enable command
  fails, applying \<open>Ocean\<close> leaves \<open>/videos/old.mp4\<close> in the state file.
\<close>

theorem on_apply_enable_failure_witness:
  "fst (apply_wallpaper (env_failing enable_cmd) (file_path ocean) world_applied) = Inr False
   \<and> fst (on_apply (env_failing enable_cmd) gui_ocean world_applied) = Inr ()
   \<and> dialogs (fst (snd (on_apply (env_failing enable_cmd) gui_ocean world_applied))) = [ApplyFailed]
   \<and> state_file (snd (snd (on_apply (env_failing enable_cmd) gui_ocean world_applied)))
       = Some ''/videos/old.mp4''"
proof -
  let ?e = "env_failing enable_cmd"
  let ?p = "file_path ocean"
  let ?w1 = "snd (stop_service ?e world_applied)"
  let ?w2 = "snd (create_service ?e ?p ?w1)"
  let ?w3 = "snd (reload_daemon ?e ?w2)"
  let ?w4 = "snd (enable_service ?e ?w3)"
  have g: "current_wallpaper gui_ocean = Some ocean"
    by (simp add: gui_ocean_def)
  have e1: "stop_service ?e world_applied = (Inr True, ?w1)"
    by (simp add: stop_service_def env_failing_call enable_cmd_def)
  have e2: "create_service ?e ?p ?w1 = (Inr True, ?w2)"
    by (simp add: env_failing_create)
  have e3: "reload_daemon ?e ?w2 = (Inr True, ?w3)"
    by (simp add: reload_daemon_def env_failing_call enable_cmd_def)
  have e4: "enable_service ?e ?w3 = (Inr False, ?w4)"
    by (simp add: enable_service_def env_failing_call enable_cmd_def)
  have "apply_wallpaper ?e ?p world_applied = (Inr False, ?w4)
    \<and> on_apply ?e gui_ocean world_applied
         = (Inr (), gui_ocean\<lparr>dialogs := dialogs gui_ocean @ [ApplyFailed]\<rparr>, ?w4)
    \<and> state_file ?w4 = state_file world_applied"
    by (rule on_apply_enable_failure [OF g e1 e2 e3 e4])
  then show ?thesis
    by (simp add: world_applied_def gui_ocean_def)
qed


text \<open>
  C8. With \<open>st\<close> the status that \<open>get_service_status\<close> reports:
  \<open>get_current_wallpaper\<close> returns \<open>None\<close> whenever \<open>st\<close> is not active, whatever
  the state file holds; a path it returns is the stripped content of the state file,
  under an active service, and \<open>Path(path).exists()\<close> answered \<open>True\<close> for it.
  Under an active service with a readable state file: an empty stripped content gives
  \<open>None\<close>; when \<open>Path(path).exists()\<close> answers, the path is returned exactly when
  the answer is \<open>True\<close>, and \<open>None\<close> otherwise; when it raises, the exception leaves
  \<open>get_current_wallpaper\<close> and no path is reported. Without a state file the answer
  is \<open>None\<close>.
\<close>

theorem get_current_wallpaper_reconciles:
  assumes "fst (get_service_status e w) = Inr st"
  shows "(\<not> active st \<longrightarrow> fst (get_current_wallpaper e w) = Inr None)
    \<and> (fst (get_current_wallpaper e w) = Inr (Some p) \<longrightarrow>
         active st \<and> (\<exists>c. state_file w = Some c \<and> p = strip c) \<and> path_exists e p = Inr True)
    \<and> (active st \<longrightarrow> state_file w = Some content \<longrightarrow> read_state e = None \<longrightarrow>
         strip content = [] \<longrightarrow> fst (get_current_wallpaper e w) = Inr None)
    \<and> (active st \<longrightarrow> state_file w = Some content \<longrightarrow> read_state e = None \<longrightarrow>
         strip content \<noteq> [] \<longrightarrow> path_exists e (strip content) = Inr found \<longrightarrow>
         fst (get_current_wallpaper e w) = (if found then Inr (Some (strip content)) else Inr None))
    \<and> (active st \<longrightarrow> state_file w = Some content \<longrightarrow> read_state e = None \<longrightarrow>
         strip content \<noteq> [] \<longrightarrow> path_exists e (strip content) = Inl x \<longrightarrow>
         fst (get_current_wallpaper e w) = Inl x)
    \<and> (active st \<longrightarrow> state_file w = None \<longrightarrow> fst (get_current_wallpaper e w) = Inr None)"
proof -
  obtain w' where st: "get_service_status e w = (Inr st, w')"
    using assms by (cases "get_service_status e w") simp
  have w': "state_file w' = state_file w"
    using get_service_status_state [of e w] st by simp
  have 1: "\<not> active st \<longrightarrow> fst (get_current_wallpaper e w) = Inr None"
    by (simp add: get_current_wallpaper_def st)
  have 2: "fst (get_current_wallpaper e w) = Inr (Some p) \<longrightarrow>
         active st \<and> (\<exists>c. state_file w = Some c \<and> p = strip c) \<and> path_exists e p = Inr True"
    by (cases "state_file w"; cases "read_state e")
       (auto simp: get_current_wallpaper_def st w' split: if_splits sum.splits)
  have 3: "active st \<longrightarrow> state_file w = Some content \<longrightarrow> read_state e = None \<longrightarrow>
         strip content = [] \<longrightarrow> fst (get_current_wallpaper e w) = Inr None"
    by (simp add: get_current_wallpaper_def st w')
  have 4: "active st \<longrightarrow> state_file w = Some content \<longrightarrow> read_state e = None \<longrightarrow>
         strip content \<noteq> [] \<longrightarrow> path_exists e (strip content) = Inr found \<longrightarrow>
         fst (get_current_wallpaper e w) = (if found then Inr (Some (strip content)) else Inr None)"
    by (simp add: get_current_wallpaper_def st w')
  have 5: "active st \<longrightarrow> state_file w = Some content \<longrightarrow> read_state e = None \<longrightarrow>
         strip content \<noteq> [] \<longrightarrow> path_exists e (strip content) = Inl x \<longrightarrow>
         fst (get_current_wallpaper e w) = Inl x"
    by (simp add: get_current_wallpaper_def st w')
  have 6: "active st \<longrightarrow> state_file w = None \<longrightarrow> fst (get_current_wallpaper e w) = Inr None"
    by (simp add: get_current_wallpaper_def st w')
  show ?thesis using 1 2 3 4 5 6 by blast
qed

text \<open>
  The state file names \<open>/videos/old.mp4\<close>, which exists. Under the supervisor that
  reports the service inactive the answer is \<open>None\<close>; under the one that reports it
  active the answer is that path; and where the existence test raises, under an active
  service, so does \<open>get_current_wallpaper\<close>.
\<close>

theorem get_current_wallpaper_reconciles_witness:
  "fst (get_service_status env_down world_applied)
      = Inr \<lparr>active = False, enabled = False, status = ''inactive''\<rparr>
   \<and> state_file world_applied = Some ''/videos/old.mp4''
   \<and> path_exists env_down ''/videos/old.mp4'' = Inr True
   \<and> fst (get_current_wallpaper env_down world_applied) = Inr None
   \<and> fst (get_current_wallpaper env_ok world_applied) = Inr (Some ''/videos/old.mp4'')
   \<and> fst (get_current_wallpaper (env_ok\<lparr>path_exists := (\<lambda>p. Inl OSError)\<rparr>) world_applied)
       = Inl OSError"
proof -
  let ?r = "env_ok\<lparr>path_exists := (\<lambda>p. Inl OSError)\<rparr>"
  have s1: "fst (get_service_status env_down world_applied)
      = Inr \<lparr>active = False, enabled = False, status = ''inactive''\<rparr>"
    by (simp add: get_service_status_def status_try_def run_capture_def env_down_def env_ok_def
        strip_def isspace_def Let_def)
  have s2: "fst (get_service_status env_ok world_applied)
      = Inr \<lparr>active = True, enabled = True, status = ''active''\<rparr>"
    by (simp add: get_service_status_def status_try_def run_capture_def env_ok_def
        strip_def isspace_def Let_def)
  have s3: "fst (get_service_status ?r world_applied)
      = Inr \<lparr>active = True, enabled = True, status = ''active''\<rparr>"
    by (simp add: get_service_status_def status_try_def run_capture_def env_ok_def
        strip_def isspace_def Let_def)
  have act: "active \<lparr>active = True, enabled = True, status = ''active''\<rparr>"
    by simp
  have f: "state_file world_applied = Some ''/videos/old.mp4''"
    by (simp add: world_applied_def)
  have k: "strip ''/videos/old.mp4'' = ''/videos/old.mp4''"
    by (simp add: strip_def isspace_def)
  have n: "strip ''/videos/old.mp4'' \<noteq> []"
    unfolding k by simp
  have x1: "path_exists env_down ''/videos/old.mp4'' = Inr True"
    by (simp add: env_down_def env_ok_def)
  have x2: "path_exists env_ok (strip ''/videos/old.mp4'') = Inr True"
    unfolding k by (simp add: env_ok_def)
  have x3: "path_exists ?r (strip ''/videos/old.mp4'') = Inl OSError"
    by simp
  have r2: "read_state env_ok = None" and r3: "read_state ?r = None"
    by (simp_all add: env_ok_def)
  have a: "fst (get_current_wallpaper env_down world_applied) = Inr None"
    using get_current_wallpaper_reconciles [OF s1, THEN conjunct1] by simp
  have "fst (get_current_wallpaper env_ok world_applied)
          = (if True then Inr (Some (strip ''/videos/old.mp4'')) else Inr None)"
    by (rule get_current_wallpaper_reconciles [OF s2, THEN conjunct2, THEN conjunct2,
          THEN conjunct2, THEN conjunct1, rule_format, OF act f r2 n x2])
  then have b: "fst (get_current_wallpaper env_ok world_applied) = Inr (Some ''/videos/old.mp4'')"
    unfolding k by simp
  have c: "fst (get_current_wallpaper ?r world_applied) = Inl OSError"
    by (rule get_current_wallpaper_reconciles [OF s3, THEN conjunct2, THEN conjunct2,
          THEN conjunct2, THEN conjunct2, THEN conjunct1, rule_format, OF act f r3 n x3])
  show ?thesis using s1 f x1 a b c by blast
qed

section \<open>The status query\<close>

text \<open>
  C5, as the code has it. \<open>get_service_status\<close> never raises. When the
  \<open>is-active\<close> query raises, the result is the default
  \<open>{active: False, enabled: False, status: 'unknown'}\<close>. When the \<open>is-active\<close> query
  completes and the \<open>is-enabled\<close> query raises, \<open>active\<close> and \<open>status\<close> are those
  of the first query and only \<open>enabled\<close> keeps its default. When both complete,
  every entry comes from the queries.
\<close>

theorem get_service_status_cases:
  "(\<exists>st. fst (get_service_status e w) = Inr st)
   \<and> (systemctl e (log w) is_active_cmd = RunRaises x \<longrightarrow>
        fst (get_service_status e w) = Inr \<lparr>active = False, enabled = False, status = ''unknown''\<rparr>)
   \<and> (systemctl e (log w) is_active_cmd = Completed rc out \<longrightarrow>
      systemctl e (log w @ [is_active_cmd]) is_enabled_cmd = RunRaises x \<longrightarrow>
        fst (get_service_status e w) = Inr \<lparr>active = (rc = 0), enabled = False, status = strip out\<rparr>)
   \<and> (systemctl e (log w) is_active_cmd = Completed rc out \<longrightarrow>
      systemctl e (log w @ [is_active_cmd]) is_enabled_cmd = Completed rc' out' \<longrightarrow>
        fst (get_service_status e w) = Inr \<lparr>active = (rc = 0), enabled = (rc' = 0), status = strip out\<rparr>)"
  using get_service_status_total [of e w]
  by (simp add: get_service_status_def status_try_def run_capture_def is_active_cmd_def
      is_enabled_cmd_def Let_def)

text \<open>
  When \<open>systemctl\<close> cannot be run for the first query, the defaults come back; when
  both queries complete with exit code 1, the status is the output of the first.
\<close>

theorem get_service_status_cases_witness:
  "systemctl (env_raising is_active_cmd FileNotFoundError) (log world_fresh) is_active_cmd
      = RunRaises FileNotFoundError
   \<and> fst (get_service_status (env_raising is_active_cmd FileNotFoundError) world_fresh)
      = Inr \<lparr>active = False, enabled = False, status = ''unknown''\<rparr>
   \<and> fst (get_service_status env_down world_fresh)
      = Inr \<lparr>active = False, enabled = False, status = ''inactive''\<rparr>"
proof -
  let ?e = "env_raising is_active_cmd FileNotFoundError"
  have h: "systemctl ?e (log world_fresh) is_active_cmd = RunRaises FileNotFoundError"
    by (simp add: env_raising_def)
  have d1: "systemctl env_down (log world_fresh) is_active_cmd
      = Completed 1 (''inactive'' @ [CHR 0x0A])"
    by (simp add: env_down_def)
  have d2: "systemctl env_down (log world_fresh @ [is_active_cmd]) is_enabled_cmd
      = Completed 1 (''inactive'' @ [CHR 0x0A])"
    by (simp add: env_down_def)
  have k: "strip (''inactive'' @ [CHR 0x0A]) = ''inactive''"
    by (simp add: strip_def isspace_def)
  have a: "fst (get_service_status ?e world_fresh)
      = Inr \<lparr>active = False, enabled = False, status = ''unknown''\<rparr>"
    by (rule get_service_status_cases [of ?e world_fresh FileNotFoundError,
          THEN conjunct2, THEN conjunct1, rule_format, OF h])
  have "fst (get_service_status env_down world_fresh)
      = Inr \<lparr>active = ((1::int) = 0), enabled = ((1::int) = 0),
             status = strip (''inactive'' @ [CHR 0x0A])\<rparr>"
    by (rule get_service_status_cases [where e = env_down and w = world_fresh,
          THEN conjunct2, THEN conjunct2, THEN conjunct2, rule_format, OF d1 d2])
  then have b: "fst (get_service_status env_down world_fresh)
      = Inr \<lparr>active = False, enabled = False, status = ''inactive''\<rparr>"
    unfolding k by simp
  show ?thesis using h a b by blast
qed

text \<open>
  C5 as stated fails: when the \<open>is-active\<close> query completes with exit code 0 and the
  line \<open>active\<close>, and the \<open>is-enabled\<close> query then raises, the result is not the
  default: it says active, with status \<open>active\<close>.
\<close>

theorem get_service_status_counterexample:
  "systemctl (env_raising is_enabled_cmd OSError) [is_active_cmd] is_enabled_cmd = RunRaises OSError
   \<and> fst (get_service_status (env_raising is_enabled_cmd OSError) world_fresh)
      = Inr \<lparr>active = True, enabled = False, status = ''active''\<rparr>
   \<and> fst (get_service_status (env_raising is_enabled_cmd OSError) world_fresh)
      \<noteq> Inr \<lparr>active = False, enabled = False, status = ''unknown''\<rparr>"
  by (simp add: get_service_status_def status_try_def run_capture_def env_raising_def
      is_enabled_cmd_def strip_def isspace_def Let_def)


section \<open>Stopping\<close>

lemma clear_current_wallpaper_ok:
  "clear_current_wallpaper e w = (Inr u, w') \<Longrightarrow> state_file w' = None"
  by (auto simp: clear_current_wallpaper_def split: if_splits option.splits)

lemma on_stop_completion:
  "fst (on_stop e g w) = Inr u \<Longrightarrow> state_file (snd (snd (on_stop e g w))) = None"
  unfolding on_stop_def
  by (auto simp: load_wallpapers_state split: prod.splits sum.splits
      dest!: clear_current_wallpaper_ok)

lemma on_stop_run:
  assumes "systemctl e (log w) stop_cmd = Completed rc1 out1"
    and "systemctl e (log w @ [stop_cmd]) disable_cmd = Completed rc2 out2"
    and "state_file w = None \<or> unlink_state e = None"
  shows "on_stop e g w
    = load_wallpapers e g (w\<lparr>log := log w @ [stop_cmd, disable_cmd], state_file := None\<rparr>)"
proof -
  have 1: "stop_service e w = (Inr (rc1 = 0), w\<lparr>log := log w @ [stop_cmd]\<rparr>)"
    using assms(1) by (simp add: stop_service_def supervisor_call_def run_check_def stop_cmd_def)
  have 2: "disable_service e (w\<lparr>log := log w @ [stop_cmd]\<rparr>)
             = (Inr (rc2 = 0), w\<lparr>log := log w @ [stop_cmd, disable_cmd]\<rparr>)"
    using assms(2)
    by (simp add: disable_service_def supervisor_call_def run_check_def disable_cmd_def)
  have 3: "clear_current_wallpaper e (w\<lparr>log := log w @ [stop_cmd, disable_cmd]\<rparr>)
             = (Inr (), w\<lparr>log := log w @ [stop_cmd, disable_cmd], state_file := None\<rparr>)"
    using assms(3) by (auto simp: clear_current_wallpaper_def)
  show ?thesis by (simp add: on_stop_def 1 2 3)
qed

lemma load_wallpapers_after_clear:
  "state_file w = None \<Longrightarrow>
     fst (load_wallpapers e g w) = (case scan e True of Inl x \<Rightarrow> Inl x | Inr ws \<Rightarrow> Inr ())"
  using get_service_status_total [of e w] get_service_status_state [of e w]
  by (auto simp: load_wallpapers_def get_current_wallpaper_def Let_def
      split: prod.splits sum.splits option.splits)

text \<open>
  C7. Whenever \<open>_on_stop\<close> runs to its end, the state file is gone. And it does
  clear it whatever the supervisor answers: when the stop and the disable command
  complete, with any exit codes, and the state file is absent already or can be
  removed, then after \<open>_on_stop\<close> the state file is absent, and \<open>_on_stop\<close> ends as
  the scan of its final list refresh ends.
\<close>

theorem on_stop_clears_state:
  "(fst (on_stop e g w) = Inr () \<longrightarrow> state_file (snd (snd (on_stop e g w))) = None)
   \<and> (systemctl e (log w) stop_cmd = Completed rc1 out1 \<longrightarrow>
      systemctl e (log w @ [stop_cmd]) disable_cmd = Completed rc2 out2 \<longrightarrow>
      (state_file w = None \<or> unlink_state e = None) \<longrightarrow>
        state_file (snd (snd (on_stop e g w))) = None
        \<and> fst (on_stop e g w) = (case scan e True of Inl x \<Rightarrow> Inl x | Inr ws \<Rightarrow> Inr ()))"
  using on_stop_completion [of e g w "()"]
  by (auto simp: on_stop_run load_wallpapers_state load_wallpapers_after_clear)

text \<open>
  With a supervisor that fails both the stop and the disable command, the state file
  of the machine with an applied wallpaper is removed and \<open>_on_stop\<close> returns; on a
  fresh machine, where nothing runs and there is no state file, it returns too.
\<close>

theorem on_stop_clears_state_witness:
  "stop_service env_down world_applied = (Inr False, world_applied\<lparr>log := [stop_cmd]\<rparr>)
   \<and> disable_service env_down (world_applied\<lparr>log := [stop_cmd]\<rparr>)
        = (Inr False, world_applied\<lparr>log := [stop_cmd, disable_cmd]\<rparr>)
   \<and> state_file world_applied = Some ''/videos/old.mp4''
   \<and> state_file (snd (snd (on_stop env_down gui_ocean world_applied))) = None
   \<and> fst (on_stop env_down gui_ocean world_applied) = Inr ()
   \<and> state_file (snd (snd (on_stop env_ok gui_ocean world_fresh))) = None
   \<and> fst (on_stop env_ok gui_ocean world_fresh) = Inr ()"
proof -
  have l: "log world_applied = []" "log world_fresh = []"
    by (simp_all add: world_applied_def world_fresh_def)
  have d1: "systemctl env_down (log world_applied) stop_cmd
      = Completed 1 (''inactive'' @ [CHR 0x0A])"
    by (simp add: env_down_def)
  have d2: "systemctl env_down (log world_applied @ [stop_cmd]) disable_cmd
      = Completed 1 (''inactive'' @ [CHR 0x0A])"
    by (simp add: env_down_def)
  have d3: "state_file world_applied = None \<or> unlink_state env_down = None"
    by (simp add: env_down_def env_ok_def)
  have o1: "systemctl env_ok (log world_fresh) stop_cmd
      = Completed 0 (''active'' @ [CHR 0x0A])"
    by (simp add: env_ok_def)
  have o2: "systemctl env_ok (log world_fresh @ [stop_cmd]) disable_cmd
      = Completed 0 (''active'' @ [CHR 0x0A])"
    by (simp add: env_ok_def)
  have o3: "state_file world_fresh = None \<or> unlink_state env_ok = None"
    by (simp add: env_ok_def)
  have s1: "(case scan env_down True of Inl x \<Rightarrow> Inl x | Inr ws \<Rightarrow> Inr ()) = Inr ()"
    by code_simp
  have s2: "(case scan env_ok True of Inl x \<Rightarrow> Inl x | Inr ws \<Rightarrow> Inr ()) = Inr ()"
    by code_simp
  have a: "state_file (snd (snd (on_stop env_down gui_ocean world_applied))) = None
        \<and> fst (on_stop env_down gui_ocean world_applied)
            = (case scan env_down True of Inl x \<Rightarrow> Inl x | Inr ws \<Rightarrow> Inr ())"
    by (rule on_stop_clears_state [where e = env_down and w = world_applied and g = gui_ocean,
          THEN conjunct2, rule_format, OF d1 d2 d3])
  have b: "state_file (snd (snd (on_stop env_ok gui_ocean world_fresh))) = None
        \<and> fst (on_stop env_ok gui_ocean world_fresh)
            = (case scan env_ok True of Inl x \<Rightarrow> Inl x | Inr ws \<Rightarrow> Inr ())"
    by (rule on_stop_clears_state [where e = env_ok and w = world_fresh and g = gui_ocean,
          THEN conjunct2, rule_format, OF o1 o2 o3])
  have c1: "stop_service env_down world_applied = (Inr False, world_applied\<lparr>log := [stop_cmd]\<rparr>)"
    using supervisor_call_completed [OF d1] l by (simp add: stop_service_def stop_cmd_def)
  have c2: "disable_service env_down (world_applied\<lparr>log := [stop_cmd]\<rparr>)
        = (Inr False, world_applied\<lparr>log := [stop_cmd, disable_cmd]\<rparr>)"
    using supervisor_call_completed [of env_down "world_applied\<lparr>log := [stop_cmd]\<rparr>" disable_cmd 1]
      d2 l by (simp add: disable_service_def disable_cmd_def)
  have f: "state_file world_applied = Some ''/videos/old.mp4''"
    by (simp add: world_applied_def)
  show ?thesis using a b c1 c2 f unfolding s1 s2 by blast
qed

section \<open>Volume round trip\<close>

lemma of_char_digit_char: "d < 10 \<Longrightarrow> (of_char (digit_char d) :: nat) = 48 + d"
  by (simp add: digit_char_def)

lemma digit_char_props:
  assumes "d < 10"
  shows "isdigit (digit_char d)" and "digit_val (digit_char d) = d"
    and "\<not> isspace (digit_char d)"
  using assms by (auto simp: isdigit_def digit_val_def isspace_def of_char_digit_char)

lemma str_nat_unfold:
  "str_nat n = (if n < 10 then [digit_char n] else str_nat (n div 10) @ [digit_char (n mod 10)])"
  by (rule str_nat.simps)

lemma str_nat_digits: "list_all isdigit (str_nat n)"
proof (induction n rule: str_nat.induct)
  case (1 n)
  show ?case
  proof (cases "n < 10")
    case True
    then show ?thesis by (subst str_nat_unfold) (simp add: digit_char_props)
  next
    case False
    then show ?thesis using 1 by (subst str_nat_unfold) (simp add: digit_char_props)
  qed
qed

lemma str_nat_not_Nil: "str_nat n \<noteq> []"
  by (subst str_nat_unfold) simp

lemma str_nat_last: "last (str_nat n) = digit_char (n mod 10)"
  by (subst str_nat_unfold) simp

lemma int_digits_all:
  "list_all isdigit ds \<Longrightarrow> int_digits ds acc = Some (digits_value acc ds)"
  by (induction ds arbitrary: acc) (simp_all add: digits_value_def)

lemma digits_value_str_nat: "digits_value 0 (str_nat n) = n"
proof (induction n rule: str_nat.induct)
  case (1 n)
  show ?case
  proof (cases "n < 10")
    case True
    then show ?thesis
      by (subst str_nat_unfold) (simp add: digits_value_def digit_char_props)
  next
    case False
    then have "digits_value 0 (str_nat (n div 10)) = n div 10" using 1 by simp
    with False show ?thesis
      by (subst str_nat_unfold) (simp add: digits_value_def digit_char_props)
  qed
qed

lemma int_unsigned_str_nat: "int_unsigned (str_nat n) = Some n"
proof -
  have "isdigit (hd (str_nat n))"
    using str_nat_digits [of n] str_nat_not_Nil [of n] by (cases "str_nat n") simp_all
  then show ?thesis
    by (simp add: int_unsigned_def str_nat_not_Nil int_digits_all str_nat_digits
        digits_value_str_nat)
qed

lemma dropWhile_hd: "xs \<noteq> [] \<Longrightarrow> \<not> P (hd xs) \<Longrightarrow> dropWhile P xs = xs"
  by (cases xs) simp_all

lemma strip_id:
  assumes "s \<noteq> []" "\<not> isspace (hd s)" "\<not> isspace (last s)"
  shows "strip s = s"
proof -
  have 1: "dropWhile isspace s = s"
    using assms(1,2) by (rule dropWhile_hd)
  have 2: "dropWhile isspace (rev s) = rev s"
    using assms(1,3) by (intro dropWhile_hd) (simp_all add: hd_rev)
  show ?thesis by (simp add: strip_def 1 2)
qed

lemma isdigit_not_space: "isdigit c \<Longrightarrow> \<not> isspace c"
  by (auto simp: isdigit_def isspace_def)

lemma str_nat_hd_last: "isdigit (hd (str_nat n))" "isdigit (last (str_nat n))"
proof -
  show "isdigit (hd (str_nat n))"
    using str_nat_digits [of n] str_nat_not_Nil [of n] by (cases "str_nat n") simp_all
  show "isdigit (last (str_nat n))"
    by (simp add: str_nat_last digit_char_props)
qed

lemma strip_str_int: "strip (str_int v) = str_int v"
proof (rule strip_id)
  show "str_int v \<noteq> []" by (simp add: str_int_def str_nat_not_Nil)
  show "\<not> isspace (hd (str_int v))"
  proof (cases "v < 0")
    case True
    then show ?thesis by (simp add: str_int_def isspace_def)
  next
    case False
    then show ?thesis
      using isdigit_not_space [OF str_nat_hd_last(1) [of "nat v"]] by (simp add: str_int_def)
  qed
  show "\<not> isspace (last (str_int v))"
    using str_nat_hd_last(2) isdigit_not_space
    by (auto simp: str_int_def str_nat_not_Nil)
qed

lemma hd_str_nat_not_sign: "hd (str_nat n) \<noteq> CHR ''-''" "hd (str_nat n) \<noteq> CHR ''+''"
  using str_nat_hd_last(1) [of n] by (auto simp: isdigit_def)

lemma int_str_str_int: "int_str (str_int v) = Some v"
proof (cases "v < 0")
  case True
  then show ?thesis
    using strip_str_int [of v]
    by (simp add: int_str_def str_int_def int_unsigned_str_nat)
next
  case False
  obtain c cs where cs: "str_nat (nat v) = c # cs"
    using str_nat_not_Nil [of "nat v"] by (cases "str_nat (nat v)") auto
  have "c \<noteq> CHR ''-''" "c \<noteq> CHR ''+''"
    using hd_str_nat_not_sign [of "nat v"] cs by simp_all
  moreover have "int_unsigned (c # cs) = Some (nat v)"
    using int_unsigned_str_nat [of "nat v"] cs by simp
  ultimately show ?thesis
    using False strip_str_int [of v] cs
    by (simp add: int_str_def str_int_def)
qed


lemma save_volume_total: "\<exists>b. fst (save_volume e v w) = Inr b"
  by (cases "save_volume_try e v w") (auto simp: save_volume_def split: sum.splits)

lemma save_volume_True:
  "fst (save_volume e v w) = Inr True \<Longrightarrow> volume_file (snd (save_volume e v w)) = Some (str_int v)"
  by (auto simp: save_volume_def save_volume_try_def write_volume_file_def
      split: option.splits wr.splits)

lemma save_volume_False:
  "mkdir_config_dir e \<noteq> None \<or> write_volume e \<noteq> WriteOk \<Longrightarrow> fst (save_volume e v w) = Inr False"
  by (auto simp: save_volume_def save_volume_try_def write_volume_file_def
      split: option.splits wr.splits)

lemma get_volume_parsed:
  "volume_file w = Some s \<Longrightarrow> read_volume e = None \<Longrightarrow> int_str (strip s) = Some n \<Longrightarrow>
     get_volume e w = Inr n"
  by (simp add: get_volume_def get_volume_try_def)

lemma save_then_get_volume:
  assumes "fst (save_volume e v w) = Inr True" and "read_volume e = None"
  shows "get_volume e (snd (save_volume e v w)) = Inr v"
  using save_volume_True [OF assms(1)] assms(2)
  by (intro get_volume_parsed [where s = "str_int v"]) (simp_all add: strip_str_int int_str_str_int)

text \<open>
  C9. For each \<open>v\<close> of 0, 50 and 100: when \<open>save_volume v\<close> returns \<open>True\<close>
  and the file can be read, \<open>get_volume\<close> then returns \<open>v\<close>. And \<open>get_volume\<close>
  returns the default 50 when the volume file is absent, when its stripped content is
  not an integer for \<open>int\<close>, and when reading it raises a \<open>ValueError\<close> or an
  \<open>OSError\<close>.
\<close>

theorem volume_round_trip:
  "(\<forall>v \<in> {0, 50, 100}. fst (save_volume e v w) = Inr True \<longrightarrow> read_volume e = None \<longrightarrow>
        get_volume e (snd (save_volume e v w)) = Inr v)
   \<and> (volume_file w = None \<longrightarrow> get_volume e w = Inr 50)
   \<and> (volume_file w = Some s \<longrightarrow> read_volume e = None \<longrightarrow> int_str (strip s) = None \<longrightarrow>
        get_volume e w = Inr 50)
   \<and> (volume_file w = Some s \<longrightarrow> read_volume e = Some x \<longrightarrow> is_ValueError x \<or> is_OSError x \<longrightarrow>
        get_volume e w = Inr 50)"
proof (intro conjI ballI impI)
  fix v :: int
  assume "fst (save_volume e v w) = Inr True" "read_volume e = None"
  then show "get_volume e (snd (save_volume e v w)) = Inr v"
    by (rule save_then_get_volume)
next
  assume "volume_file w = None"
  then show "get_volume e w = Inr 50"
    by (simp add: get_volume_def get_volume_try_def)
next
  assume "volume_file w = Some s" "read_volume e = None" "int_str (strip s) = None"
  then show "get_volume e w = Inr 50"
    by (simp add: get_volume_def get_volume_try_def)
next
  assume "volume_file w = Some s" "read_volume e = Some x" "is_ValueError x \<or> is_OSError x"
  then show "get_volume e w = Inr 50"
    by (simp add: get_volume_def get_volume_try_def)
qed

text \<open>
  On the example machine the three volumes come back, a fresh machine reads 50, and so
  do a volume file holding \<open>loud\<close> and one that does not decode.
\<close>

theorem volume_round_trip_witness:
  "fst (save_volume env_ok 100 world_fresh) = Inr True
   \<and> get_volume env_ok (snd (save_volume env_ok 100 world_fresh)) = Inr 100
   \<and> get_volume env_ok (snd (save_volume env_ok 0 world_applied)) = Inr 0
   \<and> get_volume env_ok (snd (save_volume env_ok 50 world_applied)) = Inr 50
   \<and> get_volume env_ok world_fresh = Inr 50
   \<and> int_str (strip ''loud'') = None
   \<and> get_volume env_ok (world_applied\<lparr>volume_file := Some ''loud''\<rparr>) = Inr 50
   \<and> get_volume (env_ok\<lparr>read_volume := Some UnicodeDecodeError\<rparr>) world_applied = Inr 50"
proof -
  have r: "read_volume env_ok = None"
    by (simp add: env_ok_def)
  have t: "fst (save_volume env_ok v w) = Inr True" for v w
    by (simp add: save_volume_def save_volume_try_def write_volume_file_def env_ok_def)
  have a: "get_volume env_ok (snd (save_volume env_ok 100 world_fresh)) = Inr 100"
    using volume_round_trip [of env_ok world_fresh] t r by blast
  have b: "get_volume env_ok (snd (save_volume env_ok 0 world_applied)) = Inr 0"
    using volume_round_trip [of env_ok world_applied] t r by blast
  have c: "get_volume env_ok (snd (save_volume env_ok 50 world_applied)) = Inr 50"
    using volume_round_trip [of env_ok world_applied] t r by blast
  have d: "get_volume env_ok world_fresh = Inr 50"
    using volume_round_trip [of env_ok world_fresh] by (simp add: world_fresh_def)
  have p: "int_str (strip ''loud'') = None"
    by code_simp
  have f: "get_volume env_ok (world_applied\<lparr>volume_file := Some ''loud''\<rparr>) = Inr 50"
    using volume_round_trip [of env_ok "world_applied\<lparr>volume_file := Some ''loud''\<rparr>" "''loud''"]
      r p by simp
  have g: "get_volume (env_ok\<lparr>read_volume := Some UnicodeDecodeError\<rparr>) world_applied = Inr 50"
    using volume_round_trip [of "env_ok\<lparr>read_volume := Some UnicodeDecodeError\<rparr>" world_applied
        "''80''" UnicodeDecodeError]
    by (simp add: world_applied_def)
  show ?thesis using t a b c d p f g by blast
qed

text \<open>
  C10. When the volume file can be read and its stripped content is an integer \<open>n\<close>
  for \<open>int\<close>, \<open>get_volume\<close> returns \<open>n\<close> itself, with no bound on \<open>n\<close>.
\<close>

theorem get_volume_unclamped:
  assumes "volume_file w = Some s" and "read_volume e = None" and "int_str (strip s) = Some n"
  shows "get_volume e w = Inr n"
  using assms by (rule get_volume_parsed)

text \<open>
  A volume file holding \<open>-5\<close> and a newline reads as \<open>-5\<close>, one holding
  \<open>999\<close> as \<open>999\<close>.
\<close>

theorem get_volume_unclamped_witness:
  "int_str (strip (''-5'' @ [CHR 0x0A])) = Some (- 5)
   \<and> get_volume env_ok (world_fresh\<lparr>volume_file := Some (''-5'' @ [CHR 0x0A])\<rparr>) = Inr (- 5)
   \<and> int_str (strip ''999'') = Some 999
   \<and> get_volume env_ok (world_fresh\<lparr>volume_file := Some ''999''\<rparr>) = Inr 999"
proof -
  have r: "read_volume env_ok = None"
    by (simp add: env_ok_def)
  have p1: "int_str (strip (''-5'' @ [CHR 0x0A])) = Some (- 5)"
    by code_simp
  have p2: "int_str (strip ''999'') = Some 999"
    by code_simp
  have a: "get_volume env_ok (world_fresh\<lparr>volume_file := Some (''-5'' @ [CHR 0x0A])\<rparr>) = Inr (- 5)"
    by (rule get_volume_unclamped [OF _ r p1]) simp
  have b: "get_volume env_ok (world_fresh\<lparr>volume_file := Some ''999''\<rparr>) = Inr 999"
    by (rule get_volume_unclamped [OF _ r p2]) simp
  show ?thesis using p1 p2 a b by blast
qed


section \<open>Failures of create_service\<close>

lemma create_service_contained:
  "chmod_script e = None \<Longrightarrow> mkdir_service_dir e = None \<Longrightarrow>
     \<exists>b. fst (create_service e p w) = Inr b"
  by (cases "create_service_try e p (w\<lparr>script_mode := 493, service_dir := True\<rparr>)")
     (auto simp: create_service_def Let_def split: sum.splits)

lemma create_service_try_failures:
  "chmod_script e = None \<Longrightarrow> mkdir_service_dir e = None \<Longrightarrow>
     read_template e = Inl x \<or> write_service e = OpenFails x \<or> write_service e = WriteFails x \<Longrightarrow>
     fst (create_service e p w) = Inr False"
  by (auto simp: create_service_def create_service_try_def write_service_file_def Let_def
      split: sum.splits)

text \<open>
  C4 fails on the code. \<open>os.chmod\<close> on the launcher script and the \<open>mkdir\<close> of
  the unit file's directory stand before the \<open>try\<close> block of \<open>create_service\<close>:
  whatever they raise leaves \<open>create_service\<close>, and \<open>apply_wallpaper\<close> with it, as
  an exception, where the docstring promises \<open>False\<close>. Only failures inside the
  \<open>try\<close> block (the template, the write) come back as \<open>False\<close>, as the two lemmas
  above say.
\<close>

theorem create_service_raises:
  "fst (create_service (e\<lparr>chmod_script := Some x\<rparr>) p w) = Inl x
   \<and> fst (create_service (e\<lparr>chmod_script := None, mkdir_service_dir := Some x\<rparr>) p w) = Inl x
   \<and> fst (create_service (env_ok\<lparr>chmod_script := Some PermissionError\<rparr>) ''/videos/new.mp4''
        world_fresh) = Inl PermissionError
   \<and> fst (apply_wallpaper (env_ok\<lparr>chmod_script := Some PermissionError\<rparr>) ''/videos/new.mp4''
        world_fresh) = Inl PermissionError"
  by (simp add: create_service_def apply_wallpaper_def stop_service_def supervisor_call_def
      run_check_def env_ok_def Let_def)

section \<open>Failures of the state-file write\<close>

text \<open>
  C6 fails on the code for the state file. \<open>save_current_wallpaper\<close> has no
  \<open>try\<close>: a failing \<open>mkdir\<close>, \<open>open\<close> or write leaves it as an exception, and
  leaves \<open>_on_apply\<close> with it after the wallpaper has been applied. Its sibling
  \<open>save_volume\<close> does the same two calls inside \<open>try\<close> and returns \<open>False\<close>.
\<close>

theorem save_current_wallpaper_raises:
  "fst (save_current_wallpaper (e\<lparr>mkdir_config_dir := Some x\<rparr>) p w) = Inl x
   \<and> fst (save_current_wallpaper (e\<lparr>mkdir_config_dir := None, write_state := OpenFails x\<rparr>) p w) = Inl x
   \<and> fst (save_current_wallpaper (e\<lparr>mkdir_config_dir := None, write_state := WriteFails x\<rparr>) p w) = Inl x
   \<and> fst (save_volume (e\<lparr>mkdir_config_dir := None, write_volume := OpenFails x\<rparr>) v w) = Inr False
   \<and> fst (on_apply (env_ok\<lparr>write_state := OpenFails PermissionError\<rparr>) gui_ocean world_fresh)
        = Inl PermissionError"
proof -
  have "fst (on_apply (env_ok\<lparr>write_state := OpenFails PermissionError\<rparr>) gui_ocean world_fresh)
        = Inl PermissionError"
    by code_simp
  then show ?thesis
    by (simp add: save_current_wallpaper_def save_volume_def save_volume_try_def
        write_volume_file_def)
qed

section \<open>Metadata with a missing field\<close>

text \<open>
  C3 fails on the code. The first workshop folder has metadata that parses but lacks
  one required key; the second folder is a good wallpaper. Without \<open>type\<close>, the call
  \<open>wallpaper_type.lower()\<close> on \<open>None\<close> raises \<open>AttributeError\<close>; without
  \<open>file\<close>, \<open>os.path.splitext(None)\<close> raises \<open>TypeError\<close>; without \<open>title\<close>
  the entry is appended and the final sort raises \<open>AttributeError\<close> on
  \<open>w.title.lower()\<close>. In each case \<open>scan\<close> raises and returns no wallpaper at all.
\<close>

theorem scan_missing_field_raises:
  "scan (env_metadata (Loaded (JObj [(''title'', JStr ''Ocean''), (''file'', JStr ''ocean.mp4'')])))
      True = Inl AttributeError
   \<and> scan (env_metadata (Loaded (JObj [(''title'', JStr ''Ocean''), (''type'', JStr ''video'')])))
      True = Inl TypeError
   \<and> scan (env_metadata (Loaded (JObj [(''file'', JStr ''ocean.mp4''), (''type'', JStr ''video'')])))
      True = Inl AttributeError"
  by code_simp

text \<open>
  The sibling case that the code does handle: metadata that does not parse is skipped
  and the other folder is returned.
\<close>

lemma scan_skips_unparsable:
  "scan (env_metadata (LoadRaises JSONDecodeError)) True
     = Inr [\<lparr>title = JStr ''forest'', file_path = workshop_dir @ ''/1002/forest.webm'',
            preview_path = None, folder_path = workshop_dir @ ''/1002'',
            wallpaper_type = JStr ''Video''\<rparr>]"
  by code_simp

lemma scan_entry_missing_type:
  "map_of (rev kvs) ''type'' = None \<Longrightarrow>
     scan_entry e True workshop_path wallpaper_folder (JObj kvs) = Inl AttributeError"
  by (simp add: scan_entry_def video_filter_def split: option.splits)


end
